theory Spec2Isabelle
  imports Complex_Main "HOL-Library.AList" "HOL-Library.Multiset"
begin

section \<open>Python values, dictionaries and exceptions\<close>

text \<open>
  The analyzers of \<^verbatim>\<open>api_app/script_analyzers\<close> exchange JSON-like Python values:
  a report is a \<^verbatim>\<open>dict\<close> with string keys, the payload a worker answers is the decoded
  JSON body. Dictionaries are association lists (insertion order, as in Python), looked
  up with \<open>map_of\<close>. Timestamps (\<^verbatim>\<open>time.time()\<close>, \<^verbatim>\<open>get_now()\<close>) are real numbers
  of seconds; floating-point rounding is not modelled.
\<close>

type_synonym time = real

datatype pyval =
    PNone
  | PBool bool
  | PInt int
  | PFloat real
  | PStr string
  | PList "pyval list"
  | PDict "(string \<times> pyval) list"

type_synonym pydict = "(string \<times> pyval) list"

text \<open>Python truthiness, as \<^verbatim>\<open>not x\<close> and \<^verbatim>\<open>if x:\<close> read a value.\<close>

fun truthy :: "pyval \<Rightarrow> bool" where
  "truthy PNone = False"
| "truthy (PBool b) = b"
| "truthy (PInt i) = (i \<noteq> 0)"
| "truthy (PFloat x) = (x \<noteq> 0)"
| "truthy (PStr s) = (s \<noteq> [])"
| "truthy (PList xs) = (xs \<noteq> [])"
| "truthy (PDict kvs) = (kvs \<noteq> [])"

text \<open>\<^verbatim>\<open>d.get(key, default)\<close> and \<^verbatim>\<open>d[key] = v\<close>.\<close>

definition dict_get :: "pydict \<Rightarrow> string \<Rightarrow> pyval \<Rightarrow> pyval" where
  "dict_get d k dflt = (case map_of d k of None \<Rightarrow> dflt | Some v \<Rightarrow> v)"

definition dict_set :: "pydict \<Rightarrow> string \<Rightarrow> pyval \<Rightarrow> pydict" where
  "dict_set d k v = AList.update k v d"

text \<open>
  The exception classes the two modules name or can meet. The code observes an exception
  only through its class (the \<^verbatim>\<open>except\<close> clauses) and through \<^verbatim>\<open>str(e)\<close>, so an
  exception is a class and the text \<^verbatim>\<open>str(e)\<close> yields. \<open>NonException\<close> stands for
  the classes below \<^verbatim>\<open>BaseException\<close> that are not below \<^verbatim>\<open>Exception\<close>
  (\<^verbatim>\<open>KeyboardInterrupt\<close>, \<^verbatim>\<open>SystemExit\<close>): \<^verbatim>\<open>except Exception\<close> lets them through.
\<close>

datatype exc_class =
    AnalyzerRunException
  | AnalyzerConfigurationException
  | AlreadyFailedJobException
  | RequestException
  | HTTPError
  | DoesNotExist
  | DatabaseError
  | KeyError
  | AttributeError
  | TypeError
  | ValueError
  | OtherException
  | NonException

datatype exc = Exc (exc_class: exc_class) (exc_str: string)

definition is_Exception :: "exc \<Rightarrow> bool" where
  "is_Exception e = (exc_class e \<noteq> NonException)"

text \<open>\<^verbatim>\<open>requests.HTTPError\<close> is a subclass of \<^verbatim>\<open>requests.RequestException\<close>.\<close>

definition is_RequestException :: "exc \<Rightarrow> bool" where
  "is_RequestException e = (exc_class e = RequestException \<or> exc_class e = HTTPError)"

text \<open>
  The texts of the exceptions the interpreter itself raises: the name of a value's type,
  a text between single quotes, \<^verbatim>\<open>str(KeyError(k))\<close> (the key as \<^verbatim>\<open>repr\<close> prints
  it) and the \<^verbatim>\<open>AttributeError\<close> for an attribute the value's type does not have.
\<close>

fun type_name :: "pyval \<Rightarrow> string" where
  "type_name PNone = ''NoneType''"
| "type_name (PBool b) = ''bool''"
| "type_name (PInt i) = ''int''"
| "type_name (PFloat x) = ''float''"
| "type_name (PStr s) = ''str''"
| "type_name (PList xs) = ''list''"
| "type_name (PDict kvs) = ''dict''"

definition quoted :: "string \<Rightarrow> string" where
  "quoted s = [CHR 0x27] @ s @ [CHR 0x27]"

definition key_error :: "string \<Rightarrow> exc" where
  "key_error k = Exc KeyError (quoted k)"

definition no_attribute :: "pyval \<Rightarrow> string \<Rightarrow> exc" where
  "no_attribute v attr =
     Exc AttributeError (quoted (type_name v) @ '' object has no attribute '' @ quoted attr)"

text \<open>\<^verbatim>\<open>str(n)\<close> of an integer, for the f-strings that print a job id or a status code.\<close>

fun str_nat :: "nat \<Rightarrow> string" where
  "str_nat n =
     (if n < 10 then [''0123456789'' ! n]
      else str_nat (n div 10) @ [''0123456789'' ! (n mod 10)])"

declare str_nat.simps [simp del]

definition str_int :: "int \<Rightarrow> string" where
  "str_int i = (if i < 0 then CHR ''-'' # str_nat (nat (- i)) else str_nat (nat i))"

section \<open>The job store, the clock and the job record\<close>

text \<open>
  A job row, with the fields \<^verbatim>\<open>set_report_and_cleanup\<close> and \<^verbatim>\<open>set_job_status\<close>
  read and write.
\<close>

record job =
  status :: string
  analyzers_to_execute :: "string list"
  analysis_reports :: "pydict list"
  finished_analysis_time :: "time option"
  errors :: "string list"

text \<open>
  Modelled from the spec: \<^verbatim>\<open>api_app.models.Job\<close>, \<^verbatim>\<open>django.db.transaction\<close>
  and \<^verbatim>\<open>get_now\<close> are not among the source files. The spec's job store interface is
  \<^verbatim>\<open>get_job(job_id)\<close>, \<^verbatim>\<open>save(job, fields)\<close> (a partial-field persist) and a
  transaction scope with commit-on-success and rollback-on-throw; a persistence
  failure is an error the store raises. The world holds the table of job rows, the
  script of the store's coming outcomes (\<open>None\<close>: the next store operation works,
  \<open>Some msg\<close>: it raises a database error with that text; an exhausted script means
  no more failures) and the clock: the value of its \<open>n\<close>-th reading and the number of
  readings made so far.
\<close>

record world =
  db :: "int \<rightharpoonup> job"
  faults :: "string option list"
  clock :: "nat \<Rightarrow> time"
  clock_reads :: nat

definition next_fault :: "world \<Rightarrow> string option \<times> world" where
  "next_fault w =
     (case faults w of
        [] \<Rightarrow> (None, w)
      | f # fs \<Rightarrow> (f, w\<lparr>faults := fs\<rparr>))"

text \<open>Modelled from the spec: reading the clock (\<^verbatim>\<open>get_now()\<close>, \<^verbatim>\<open>time.time()\<close>).\<close>

definition get_now :: "world \<Rightarrow> time \<times> world" where
  "get_now w = (clock w (clock_reads w), w\<lparr>clock_reads := Suc (clock_reads w)\<rparr>)"

text \<open>
  Modelled from the spec: \<^verbatim>\<open>Job.object_by_job_id(job_id)\<close>, the store's
  \<^verbatim>\<open>get_job\<close>. It returns a copy of the row; a missing row raises.
\<close>

definition object_by_job_id :: "int \<Rightarrow> world \<Rightarrow> (exc + job) \<times> world" where
  "object_by_job_id job_id w =
     (case next_fault w of
        (Some msg, w1) \<Rightarrow> (Inl (Exc DatabaseError msg), w1)
      | (None, w1) \<Rightarrow>
          (case db w1 job_id of
             None \<Rightarrow> (Inl (Exc DoesNotExist ''Job matching query does not exist.''), w1)
           | Some j \<Rightarrow> (Inr j, w1)))"

text \<open>
  Modelled from the spec: \<^verbatim>\<open>job_object.save(update_fields=[...])\<close> writes the named
  fields of the in-memory object to its row and leaves the other columns as they are;
  \<^verbatim>\<open>job_object.save()\<close> writes every field.
\<close>

definition copy_field :: "job \<Rightarrow> string \<Rightarrow> job \<Rightarrow> job" where
  "copy_field obj f row =
     (if f = ''status'' then row\<lparr>status := status obj\<rparr>
      else if f = ''analyzers_to_execute'' then
        row\<lparr>analyzers_to_execute := analyzers_to_execute obj\<rparr>
      else if f = ''analysis_reports'' then row\<lparr>analysis_reports := analysis_reports obj\<rparr>
      else if f = ''finished_analysis_time'' then
        row\<lparr>finished_analysis_time := finished_analysis_time obj\<rparr>
      else if f = ''errors'' then row\<lparr>errors := errors obj\<rparr>
      else row)"

definition save_update_fields :: "int \<Rightarrow> job \<Rightarrow> string list \<Rightarrow> world \<Rightarrow> (exc + unit) \<times> world" where
  "save_update_fields job_id obj update_fields w =
     (case next_fault w of
        (Some msg, w1) \<Rightarrow> (Inl (Exc DatabaseError msg), w1)
      | (None, w1) \<Rightarrow>
          (case db w1 job_id of
             None \<Rightarrow>
               (Inl (Exc DatabaseError ''Save with update_fields did not affect any rows.''), w1)
           | Some row \<Rightarrow>
               (Inr (), w1\<lparr>db := (db w1)(job_id \<mapsto> fold (copy_field obj) update_fields row)\<rparr>)))"

definition save :: "int \<Rightarrow> job \<Rightarrow> world \<Rightarrow> (exc + unit) \<times> world" where
  "save job_id obj w =
     (case next_fault w of
        (Some msg, w1) \<Rightarrow> (Inl (Exc DatabaseError msg), w1)
      | (None, w1) \<Rightarrow> (Inr (), w1\<lparr>db := (db w1)(job_id \<mapsto> obj)\<rparr>))"

text \<open>
  Modelled from the spec: \<^verbatim>\<open>with transaction.atomic():\<close>. The body returns its
  outcome, the value of the local variable it binds and the world; when the body
  raises, the table goes back to what it was on entry and the exception goes on.
\<close>

definition atomic :: "(world \<Rightarrow> (exc + unit) \<times> 'l \<times> world) \<Rightarrow> world \<Rightarrow> (exc + unit) \<times> 'l \<times> world" where
  "atomic body w =
     (case body w of
        (Inl e, l, w1) \<Rightarrow> (Inl e, l, w1\<lparr>db := db w\<rparr>)
      | (Inr u, l, w1) \<Rightarrow> (Inr u, l, w1))"

section \<open>The job status setter and the report aggregator\<close>

text \<open>
  \<^verbatim>\<open>set_job_status(job_id, status, errors=None)\<close>; the default \<^verbatim>\<open>None\<close> and the
  empty list are both falsy, so the argument is a list here. Logging has no effect on
  the job and is left out, here and below.
\<close>

definition set_job_status :: "int \<Rightarrow> string \<Rightarrow> string list \<Rightarrow> world \<Rightarrow> (exc + unit) \<times> world" where
  "set_job_status job_id st errs w =
     (case object_by_job_id job_id w of
        (Inl e, w1) \<Rightarrow> (Inl e, w1)
      | (Inr job_object, w1) \<Rightarrow>
          save job_id
            ((if errs \<noteq> [] then job_object\<lparr>errors := errors job_object @ errs\<rparr>
              else job_object)\<lparr>status := st\<rparr>) w1)"

text \<open>The body of the \<^verbatim>\<open>with transaction.atomic()\<close> block; it binds \<^verbatim>\<open>job_object\<close>.\<close>

definition append_report :: "int \<Rightarrow> pydict \<Rightarrow> world \<Rightarrow> (exc + unit) \<times> job option \<times> world" where
  "append_report job_id report w =
     (case object_by_job_id job_id w of
        (Inl e, w1) \<Rightarrow> (Inl e, None, w1)
      | (Inr j, w1) \<Rightarrow>
          (let job_object = j\<lparr>analysis_reports := analysis_reports j @ [report]\<rparr> in
           case save_update_fields job_id job_object [''analysis_reports''] w1 of
             (Inl e, w2) \<Rightarrow> (Inl e, Some job_object, w2)
           | (Inr u, w2) \<Rightarrow>
               if status job_object = ''failed''
               then (Inl (Exc AlreadyFailedJobException []), Some job_object, w2)
               else (Inr (), Some job_object, w2)))"

text \<open>The loop counting the reports whose \<^verbatim>\<open>success\<close> is falsy or missing.\<close>

definition count_failed :: "pydict list \<Rightarrow> nat" where
  "count_failed reports =
     fold (\<lambda>analysis_report failed_analyzers.
             if \<not> truthy (dict_get analysis_report ''success'' (PBool False))
             then failed_analyzers + 1 else failed_analyzers)
          reports 0"

definition status_to_set :: "pydict list \<Rightarrow> string" where
  "status_to_set reports =
     (let num_analysis_reports = length reports;
          failed_analyzers = count_failed reports
      in if failed_analyzers = num_analysis_reports then ''failed''
         else if failed_analyzers \<ge> 1 then ''reported_with_fails''
         else ''reported_without_fails'')"

text \<open>
  The success flag of a report as that loop reads it: \<^verbatim>\<open>analysis_report.get("success", False)\<close>,
  taken as a truth value.
\<close>

definition report_success :: "pydict \<Rightarrow> bool" where
  "report_success analysis_report = truthy (dict_get analysis_report ''success'' (PBool False))"

text \<open>The rest of the \<^verbatim>\<open>try\<close> block, after the transaction has committed.\<close>

definition check_last_analysis :: "int \<Rightarrow> job \<Rightarrow> world \<Rightarrow> (exc + unit) \<times> job option \<times> world" where
  "check_last_analysis job_id job_object w =
     (let num_analysis_reports = length (analysis_reports job_object);
          num_analyzers_to_execute = length (analyzers_to_execute job_object)
      in if num_analysis_reports = num_analyzers_to_execute then
           (case set_job_status job_id (status_to_set (analysis_reports job_object)) [] w of
              (Inl e, w1) \<Rightarrow> (Inl e, Some job_object, w1)
            | (Inr u, w1) \<Rightarrow>
                (case get_now w1 of
                   (t, w2) \<Rightarrow>
                     (let job_object2 = job_object\<lparr>finished_analysis_time := Some t\<rparr> in
                      case save_update_fields job_id job_object2 [''finished_analysis_time''] w2 of
                        (Inl e, w3) \<Rightarrow> (Inl e, Some job_object2, w3)
                      | (Inr u, w3) \<Rightarrow> (Inr (), Some job_object2, w3))))
         else (Inr (), Some job_object, w))"

definition try_block :: "int \<Rightarrow> pydict \<Rightarrow> world \<Rightarrow> (exc + unit) \<times> job option \<times> world" where
  "try_block job_id report w =
     (case atomic (append_report job_id report) w of
        (Inl e, job_object, w1) \<Rightarrow> (Inl e, job_object, w1)
      | (Inr u, None, w1) \<Rightarrow> (Inl (no_attribute PNone ''analysis_reports''), None, w1)
      | (Inr u, Some job_object, w1) \<Rightarrow> check_last_analysis job_id job_object w1)"

text \<open>
  The \<^verbatim>\<open>except Exception as e\<close> clause. The right-hand side \<^verbatim>\<open>get_now()\<close> is
  evaluated before the attribute of \<^verbatim>\<open>job_object\<close> is set, and \<^verbatim>\<open>job_object\<close> is
  still \<^verbatim>\<open>None\<close> when the row could not be loaded.
\<close>

definition except_Exception :: "int \<Rightarrow> exc \<Rightarrow> job option \<Rightarrow> world \<Rightarrow> (exc + unit) \<times> world" where
  "except_Exception job_id e job_object w =
     (case set_job_status job_id ''failed'' [exc_str e] w of
        (Inl e2, w1) \<Rightarrow> (Inl e2, w1)
      | (Inr u, w1) \<Rightarrow>
          (case get_now w1 of
             (t, w2) \<Rightarrow>
               (case job_object of
                  None \<Rightarrow>
                    (Inl (no_attribute PNone ''finished_analysis_time''), w2)
                | Some obj \<Rightarrow>
                    save_update_fields job_id (obj\<lparr>finished_analysis_time := Some t\<rparr>)
                      [''finished_analysis_time''] w2)))"

text \<open>
  \<^verbatim>\<open>set_report_and_cleanup(job_id, report)\<close>, the same text in \<^verbatim>\<open>utils.py\<close> and as
  a static method of \<^verbatim>\<open>BaseAnalyzerMixin\<close> in \<^verbatim>\<open>classes.py\<close>.
\<close>

definition set_report_and_cleanup :: "int \<Rightarrow> pydict \<Rightarrow> world \<Rightarrow> (exc + unit) \<times> world" where
  "set_report_and_cleanup job_id report w =
     (case try_block job_id report w of
        (Inr u, job_object, w1) \<Rightarrow> (Inr (), w1)
      | (Inl e, job_object, w1) \<Rightarrow>
          if exc_class e = AlreadyFailedJobException then (Inr (), w1)
          else if is_Exception e then except_Exception job_id e job_object w1
          else (Inl e, w1))"

text \<open>
  The scenario of the claims about a whole job: the analyzers call
  \<^verbatim>\<open>set_report_and_cleanup\<close> one after the other, each with its report, whatever the
  earlier calls returned. The outcomes of the calls are kept, in order.
\<close>

fun submit_each :: "int \<Rightarrow> pydict list \<Rightarrow> world \<Rightarrow> (exc + unit) list \<times> world" where
  "submit_each job_id [] w = ([], w)"
| "submit_each job_id (report # reports) w =
     (case set_report_and_cleanup job_id report w of
        (res, w1) \<Rightarrow>
          (case submit_each job_id reports w1 of
             (ress, w2) \<Rightarrow> (res # ress, w2)))"

section \<open>The analyzer lifecycle\<close>

text \<open>
  An analyzer instance: its name, its job id and what the three abstract methods do when
  they are called (\<open>None\<close>, or \<open>Inr\<close> with the result: the method returns; an
  exception: it raises).
\<close>

record analyzer =
  analyzer_name :: string
  analyzer_job_id :: int
  before_run :: "exc option"
  run :: "exc + pyval"
  after_run :: "exc option"

text \<open>
  \<^verbatim>\<open>get_basic_report_template(analyzer_name)\<close>. The dictionary display reads the clock
  twice, \<^verbatim>\<open>time.time()\<close> and then \<^verbatim>\<open>timezone.now()\<close>; \<open>strftime\<close> is the
  formatting of a timestamp with \<^verbatim>\<open>"%Y-%m-%d %H:%M:%S"\<close>.
\<close>

definition get_basic_report_template :: "(time \<Rightarrow> string) \<Rightarrow> string \<Rightarrow> world \<Rightarrow> pydict \<times> world" where
  "get_basic_report_template strftime name w =
     (case get_now w of
        (t1, w1) \<Rightarrow>
          (case get_now w1 of
             (t2, w2) \<Rightarrow>
               ([(''name'', PStr name),
                 (''success'', PBool False),
                 (''report'', PDict []),
                 (''errors'', PList []),
                 (''process_time'', PInt 0),
                 (''started_time'', PFloat t1),
                 (''started_time_str'', PStr (strftime t2))], w2)))"

text \<open>\<^verbatim>\<open>self.report["errors"].append(msg)\<close>.\<close>

definition errors_append :: "pydict \<Rightarrow> string \<Rightarrow> exc + pydict" where
  "errors_append report msg =
     (case map_of report ''errors'' of
        None \<Rightarrow> Inl (key_error ''errors'')
      | Some (PList es) \<Rightarrow> Inr (dict_set report ''errors'' (PList (es @ [PStr msg])))
      | Some v \<Rightarrow> Inl (no_attribute v ''append''))"

definition handle_analyzer_exception :: "analyzer \<Rightarrow> exc \<Rightarrow> pydict \<Rightarrow> exc + pydict" where
  "handle_analyzer_exception a err report =
     (let error_message =
            ''job_id:'' @ str_int (analyzer_job_id a) @ '', analyzer: '' @ [CHR 0x27]
              @ analyzer_name a @ [CHR 0x27] @ ''.'' @ '' Analyzer error: '' @ [CHR 0x27]
              @ exc_str err @ [CHR 0x27]
      in case errors_append report error_message of
           Inl e \<Rightarrow> Inl e
         | Inr report1 \<Rightarrow> Inr (dict_set report1 ''success'' (PBool False)))"

definition handle_base_exception :: "analyzer \<Rightarrow> exc \<Rightarrow> pydict \<Rightarrow> exc + pydict" where
  "handle_base_exception a err report =
     (case errors_append report (exc_str err) of
        Inl e \<Rightarrow> Inl e
      | Inr report1 \<Rightarrow> Inr (dict_set report1 ''success'' (PBool False)))"

text \<open>
  \<^verbatim>\<open>self.report["process_time"] = time.time() - self.report["started_time"]\<close>, with
  the clock already read.
\<close>

definition set_process_time :: "pydict \<Rightarrow> time \<Rightarrow> exc + pydict" where
  "set_process_time report t =
     (case map_of report ''started_time'' of
        None \<Rightarrow> Inl (key_error ''started_time'')
      | Some (PFloat t0) \<Rightarrow> Inr (dict_set report ''process_time'' (PFloat (t - t0)))
      | Some (PInt i) \<Rightarrow> Inr (dict_set report ''process_time'' (PFloat (t - of_int i)))
      | Some (PBool b) \<Rightarrow>
          Inr (dict_set report ''process_time'' (PFloat (t - (if b then 1 else 0))))
      | Some v \<Rightarrow>
          Inl (Exc TypeError (''unsupported operand type(s) for -: '' @ quoted ''float''
                 @ '' and '' @ quoted (type_name v))))"

text \<open>
  The \<^verbatim>\<open>try\<close> statement of \<^verbatim>\<open>start\<close>, after the report template is built: the
  call of \<^verbatim>\<open>run\<close> with its two \<^verbatim>\<open>except\<close> clauses and the \<^verbatim>\<open>else\<close> clause.
\<close>

definition run_contained :: "analyzer \<Rightarrow> pydict \<Rightarrow> exc + pydict" where
  "run_contained a report =
     (case run a of
        Inr result \<Rightarrow> Inr (dict_set (dict_set report ''report'' result) ''success'' (PBool True))
      | Inl e \<Rightarrow>
          if exc_class e = AnalyzerConfigurationException \<or> exc_class e = AnalyzerRunException
          then handle_analyzer_exception a e report
          else if is_Exception e then handle_base_exception a e report
          else Inl e)"

text \<open>\<^verbatim>\<open>BaseAnalyzerMixin.start\<close>.\<close>

definition start :: "(time \<Rightarrow> string) \<Rightarrow> analyzer \<Rightarrow> world \<Rightarrow> (exc + pydict) \<times> world" where
  "start strftime a w =
     (case before_run a of
        Some e \<Rightarrow> (Inl e, w)
      | None \<Rightarrow>
          (case get_basic_report_template strftime (analyzer_name a) w of
             (report0, w1) \<Rightarrow>
               (case run_contained a report0 of
                  Inl e \<Rightarrow> (Inl e, w1)
                | Inr report1 \<Rightarrow>
                    (case get_now w1 of
                       (t, w2) \<Rightarrow>
                         (case set_process_time report1 t of
                            Inl e \<Rightarrow> (Inl e, w2)
                          | Inr report2 \<Rightarrow>
                              (case set_report_and_cleanup (analyzer_job_id a) report2 w2 of
                                 (Inl e, w3) \<Rightarrow> (Inl e, w3)
                               | (Inr u, w3) \<Rightarrow>
                                   (case after_run a of
                                      Some e \<Rightarrow> (Inl e, w3)
                                    | None \<Rightarrow> (Inr report2, w3))))))))"

section \<open>The docker based analyzer: status check and polling\<close>

text \<open>
  What the code reads of a \<^verbatim>\<open>requests.Response\<close>: the status code, the outcome of
  \<^verbatim>\<open>.json()\<close> (the decoded body, or the exception the decoder raises), and the reason
  phrase and url that \<^verbatim>\<open>raise_for_status\<close> prints.
\<close>

record response =
  status_code :: int
  json :: "exc + pyval"
  reason :: string
  url :: string

text \<open>
  \<^verbatim>\<open>str(v)\<close> of a JSON value: the text itself for a string; for the other values
  the rendering is the parameter \<open>repr\<close>.
\<close>

definition py_str :: "(pyval \<Rightarrow> string) \<Rightarrow> pyval \<Rightarrow> string" where
  "py_str repr v = (case v of PStr s \<Rightarrow> s | _ \<Rightarrow> repr v)"

text \<open>
  \<^verbatim>\<open>v[key]\<close> with a string key. The text for a string is the one of Python up to
  3.10.
\<close>

definition subscript :: "pyval \<Rightarrow> string \<Rightarrow> exc + pyval" where
  "subscript v k =
     (case v of
        PDict d \<Rightarrow> (case map_of d k of None \<Rightarrow> Inl (key_error k) | Some x \<Rightarrow> Inr x)
      | PList xs \<Rightarrow> Inl (Exc TypeError ''list indices must be integers or slices, not str'')
      | PStr s \<Rightarrow> Inl (Exc TypeError ''string indices must be integers'')
      | _ \<Rightarrow> Inl (Exc TypeError (quoted (type_name v) @ '' object is not subscriptable'')))"

text \<open>
  \<^verbatim>\<open>Response.raise_for_status()\<close> of the \<^verbatim>\<open>requests\<close> library: an
  \<^verbatim>\<open>HTTPError\<close> for a status code from 400 to 599, nothing otherwise.
\<close>

definition raise_for_status :: "response \<Rightarrow> exc + unit" where
  "raise_for_status req =
     (if 400 \<le> status_code req \<and> status_code req < 500 then
        Inl (Exc HTTPError (str_int (status_code req) @ '' Client Error: '' @ reason req
                             @ '' for url: '' @ url req))
      else if 500 \<le> status_code req \<and> status_code req < 600 then
        Inl (Exc HTTPError (str_int (status_code req) @ '' Server Error: '' @ reason req
                             @ '' for url: '' @ url req))
      else Inr ())"

text \<open>\<^verbatim>\<open>DockerBasedAnalyzer._check_status_code(name, req)\<close>.\<close>

definition check_status_code :: "(pyval \<Rightarrow> string) \<Rightarrow> string \<Rightarrow> response \<Rightarrow> exc + bool" where
  "check_status_code repr name req =
     (if status_code req = 404 then
        Inl (Exc AnalyzerRunException (name @ '' docker container is not running.''))
      else if status_code req = 400 then
        (case json req of
           Inl e \<Rightarrow> Inl e
         | Inr body \<Rightarrow>
             (case subscript body ''error'' of
                Inl e \<Rightarrow> Inl e
              | Inr err \<Rightarrow> Inl (Exc AnalyzerRunException (py_str repr err))))
      else if status_code req = 500 then
        Inl (Exc AnalyzerRunException (''Internal Server Error in '' @ name @ '' docker container''))
      else
        (case raise_for_status req of
           Inl e \<Rightarrow> Inl e
         | Inr u \<Rightarrow> Inr True))"

text \<open>
  The worker, as the analyzer sees it: what \<^verbatim>\<open>requests.get\<close> does on the \<open>n\<close>-th
  query of an address, a response or a raised exception. The state of a polling run is
  the number of queries made so far.
\<close>

type_synonym worker = "string \<Rightarrow> nat \<Rightarrow> exc + response"

record docker_analyzer =
  docker_name :: string
  docker_job_id :: int
  docker_url :: string
  max_tries :: int
  poll_distance :: int

text \<open>\<^verbatim>\<open>DockerBasedAnalyzer._query_for_result(url, key)\<close>.\<close>

definition query_for_result :: "worker \<Rightarrow> string \<Rightarrow> string \<Rightarrow> nat \<Rightarrow> (exc + int \<times> pyval) \<times> nat" where
  "query_for_result wk u k n =
     (case wk (u @ ''?key='' @ k) n of
        Inl e \<Rightarrow> (Inl e, Suc n)
      | Inr resp \<Rightarrow>
          (case json resp of
             Inl e \<Rightarrow> (Inl e, Suc n)
           | Inr data \<Rightarrow> (Inr (status_code resp, data), Suc n)))"

text \<open>\<^verbatim>\<open>json_data.get("status", None)\<close>: only a dictionary has \<^verbatim>\<open>get\<close>.\<close>

definition get_status :: "pyval \<Rightarrow> exc + pyval" where
  "get_status json_data =
     (case json_data of
        PDict d \<Rightarrow> Inr (dict_get d ''status'' PNone)
      | _ \<Rightarrow> Inl (no_attribute json_data ''get''))"

definition terminal_statuses :: "pyval list" where
  "terminal_statuses = [PStr ''success'', PStr ''reported_with_fails'', PStr ''failed'']"

text \<open>
  \<^verbatim>\<open>time.sleep(secs)\<close> raises \<^verbatim>\<open>ValueError\<close> for a negative length; otherwise it
  only passes time.
\<close>

definition sleep :: "int \<Rightarrow> exc + unit" where
  "sleep secs =
     (if secs < 0 then Inl (Exc ValueError ''sleep length must be non-negative'')
      else Inr ())"

text \<open>
  The \<^verbatim>\<open>for chance in range(self.max_tries)\<close> loop of \<^verbatim>\<open>_poll_for_result\<close>, by the
  number of tries left. It returns \<^verbatim>\<open>got_result\<close> and \<^verbatim>\<open>json_data\<close> (\<open>None\<close>
  while the variable is unbound), or the exception that left the loop. Each turn
  sleeps first, before the query and outside the \<^verbatim>\<open>try\<close>.
\<close>

fun poll_loop :: "docker_analyzer \<Rightarrow> worker \<Rightarrow> string \<Rightarrow> nat \<Rightarrow> pyval option \<Rightarrow> nat \<Rightarrow> (exc + bool \<times> pyval option) \<times> nat" where
  "poll_loop a wk req_key 0 json_data n = (Inr (False, json_data), n)"
| "poll_loop a wk req_key (Suc tries_left) json_data n =
     (case sleep (poll_distance a) of
        Inl e \<Rightarrow> (Inl e, n)
      | Inr u \<Rightarrow>
          (case query_for_result wk (docker_url a) req_key n of
             (Inl e, n1) \<Rightarrow>
               if is_RequestException e then (Inl (Exc AnalyzerRunException (exc_str e)), n1)
               else (Inl e, n1)
           | (Inr (code, data), n1) \<Rightarrow>
               (case get_status data of
                  Inl e \<Rightarrow> (Inl e, n1)
                | Inr analysis_status \<Rightarrow>
                    if analysis_status \<in> set terminal_statuses then (Inr (True, Some data), n1)
                    else poll_loop a wk req_key tries_left (Some data) n1)))"

text \<open>\<^verbatim>\<open>DockerBasedAnalyzer._poll_for_result(req_key)\<close>.\<close>

definition poll_for_result :: "docker_analyzer \<Rightarrow> worker \<Rightarrow> string \<Rightarrow> nat \<Rightarrow> (exc + pyval) \<times> nat" where
  "poll_for_result a wk req_key n =
     (case poll_loop a wk req_key (nat (max_tries a)) None n of
        (Inl e, n1) \<Rightarrow> (Inl e, n1)
      | (Inr (got_result, json_data), n1) \<Rightarrow>
          if \<not> got_result then
            (Inl (Exc AnalyzerRunException
               (''max '' @ docker_name a @ '' polls tried without getting any result.''
                @ ''job_id:'' @ str_int (docker_job_id a))), n1)
          else
            (case json_data of
               None \<Rightarrow>
                 (Inl (Exc OtherException
                    (''local variable '' @ quoted ''json_data''
                     @ '' referenced before assignment'')), n1)
             | Some data \<Rightarrow> (Inr data, n1)))"


text \<open>A timestamp format for the examples: every time prints as the same text.\<close>

definition fixed_strftime :: "time \<Rightarrow> string" where
  "fixed_strftime t = ''2020-01-01 00:00:00''"

section \<open>Store operations that work\<close>

lemma next_fault_nil: "faults w = [] \<Longrightarrow> next_fault w = (None, w)"
  by (simp add: next_fault_def)

lemma object_by_job_id_ok:
  "faults w = [] \<Longrightarrow> db w job_id = Some j \<Longrightarrow> object_by_job_id job_id w = (Inr j, w)"
  by (simp add: object_by_job_id_def next_fault_nil)

lemma save_ok:
  "faults w = [] \<Longrightarrow> save job_id obj w = (Inr (), w\<lparr>db := (db w)(job_id \<mapsto> obj)\<rparr>)"
  by (simp add: save_def next_fault_nil)

lemma save_update_fields_ok:
  "faults w = [] \<Longrightarrow> db w job_id = Some row \<Longrightarrow>
   save_update_fields job_id obj fs w =
     (Inr (), w\<lparr>db := (db w)(job_id \<mapsto> fold (copy_field obj) fs row)\<rparr>)"
  by (simp add: save_update_fields_def next_fault_nil)

lemma set_job_status_ok:
  "faults w = [] \<Longrightarrow> db w job_id = Some j \<Longrightarrow>
   set_job_status job_id st [] w = (Inr (), w\<lparr>db := (db w)(job_id \<mapsto> j\<lparr>status := st\<rparr>)\<rparr>)"
  by (simp add: set_job_status_def object_by_job_id_ok save_ok)

section \<open>One submission to a store that works\<close>

lemma submit_failed:
  assumes "faults w = []" "db w job_id = Some j" "status j = ''failed''"
  shows "set_report_and_cleanup job_id report w = (Inr (), w)"
  using assms
  by (simp add: set_report_and_cleanup_def try_block_def atomic_def append_report_def
      object_by_job_id_ok save_update_fields_ok Let_def)

lemma submit_not_last:
  assumes "faults w = []" "db w job_id = Some j" "status j \<noteq> ''failed''"
    "length (analysis_reports j) + 1 \<noteq> length (analyzers_to_execute j)"
  shows "set_report_and_cleanup job_id report w =
     (Inr (), w\<lparr>db := (db w)(job_id \<mapsto> j\<lparr>analysis_reports := analysis_reports j @ [report]\<rparr>)\<rparr>)"
  using assms
  by (simp add: set_report_and_cleanup_def try_block_def atomic_def append_report_def
      object_by_job_id_ok save_update_fields_ok Let_def copy_field_def check_last_analysis_def)

lemma submit_last:
  assumes "faults w = []" "db w job_id = Some j" "status j \<noteq> ''failed''"
    "length (analysis_reports j) + 1 = length (analyzers_to_execute j)"
  shows "set_report_and_cleanup job_id report w =
     (Inr (), w\<lparr>db := (db w)(job_id \<mapsto> j\<lparr>analysis_reports := analysis_reports j @ [report],
                    status := status_to_set (analysis_reports j @ [report]),
                    finished_analysis_time := Some (clock w (clock_reads w))\<rparr>),
               clock_reads := Suc (clock_reads w)\<rparr>)"
  using assms
  by (simp add: set_report_and_cleanup_def try_block_def atomic_def append_report_def
      object_by_job_id_ok save_update_fields_ok Let_def copy_field_def check_last_analysis_def
      set_job_status_ok get_now_def)

section \<open>The terminal status and a run of submissions\<close>


lemma count_failed_fold:
  "fold (\<lambda>analysis_report failed_analyzers.
             if \<not> truthy (dict_get analysis_report ''success'' (PBool False))
             then failed_analyzers + 1 else failed_analyzers) rs n
   = n + length (filter (\<lambda>r. \<not> truthy (dict_get r ''success'' (PBool False))) rs)"
  by (induction rs arbitrary: n) auto

lemma count_failed_filter:
  "count_failed rs = length (filter (\<lambda>r. \<not> truthy (dict_get r ''success'' (PBool False))) rs)"
  by (simp add: count_failed_def count_failed_fold)

lemma filter_all_length: "(length (filter P rs) = length rs) = (\<forall>r\<in>set rs. P r)"
proof (induction rs)
  case Nil
  show ?case by simp
next
  case (Cons a rs)
  show ?case
    using Cons length_filter_le [of P rs] by (auto simp del: length_filter_le)
qed

lemma filter_some_length: "(1 \<le> length (filter P rs)) = (\<exists>r\<in>set rs. P r)"
  by (induction rs) auto

lemma status_to_set_cases:
  "status_to_set rs =
     (if \<forall>r\<in>set rs. \<not> truthy (dict_get r ''success'' (PBool False)) then ''failed''
      else if \<forall>r\<in>set rs. truthy (dict_get r ''success'' (PBool False))
      then ''reported_without_fails'' else ''reported_with_fails'')"
  unfolding status_to_set_def Let_def count_failed_filter filter_all_length filter_some_length
  by auto

lemma put_twice:
  "w\<lparr>db := (db w)(k \<mapsto> a)\<rparr>\<lparr>db := (db (w\<lparr>db := (db w)(k \<mapsto> a)\<rparr>))(k \<mapsto> b)\<rparr>
   = w\<lparr>db := (db w)(k \<mapsto> b)\<rparr>"
  by simp

lemma job_reports_twice:
  "j\<lparr>analysis_reports := analysis_reports j @ [r]\<rparr>
    \<lparr>analysis_reports := analysis_reports (j\<lparr>analysis_reports := analysis_reports j @ [r]\<rparr>) @ rs\<rparr>
   = j\<lparr>analysis_reports := analysis_reports j @ r # rs\<rparr>"
  by simp

lemma submit_each_partial:
  "faults w = [] \<Longrightarrow> db w job_id = Some j \<Longrightarrow> status j \<noteq> ''failed'' \<Longrightarrow>
   length (analysis_reports j) + length rs < length (analyzers_to_execute j) \<Longrightarrow>
   submit_each job_id rs w =
     (replicate (length rs) (Inr ()),
      w\<lparr>db := (db w)(job_id \<mapsto> j\<lparr>analysis_reports := analysis_reports j @ rs\<rparr>)\<rparr>)"
proof (induction rs arbitrary: w j)
  case Nil
  then show ?case by (simp add: fun_upd_idem)
next
  case (Cons r rs)
  let ?j1 = "j\<lparr>analysis_reports := analysis_reports j @ [r]\<rparr>"
  let ?w1 = "w\<lparr>db := (db w)(job_id \<mapsto> ?j1)\<rparr>"
  have step: "set_report_and_cleanup job_id r w = (Inr (), ?w1)"
    using Cons.prems by (intro submit_not_last) auto
  have rest: "submit_each job_id rs ?w1 =
     (replicate (length rs) (Inr ()),
      ?w1\<lparr>db := (db ?w1)(job_id \<mapsto> ?j1\<lparr>analysis_reports := analysis_reports ?j1 @ rs\<rparr>)\<rparr>)"
    using Cons.prems by (intro Cons.IH) auto
  show ?case
    unfolding submit_each.simps step prod.case rest
    by (simp only: put_twice job_reports_twice length_Cons replicate_Suc)
qed


lemma put_then_finish:
  "w\<lparr>db := (db w)(k \<mapsto> a)\<rparr>
     \<lparr>db := (db (w\<lparr>db := (db w)(k \<mapsto> a)\<rparr>))(k \<mapsto> b),
      clock_reads := n\<rparr>
   = w\<lparr>db := (db w)(k \<mapsto> b), clock_reads := n\<rparr>"
  by simp

lemma job_reports_finish:
  "j\<lparr>analysis_reports := a, analysis_reports := b, status := s, finished_analysis_time := t\<rparr>
   = j\<lparr>analysis_reports := b, status := s, finished_analysis_time := t\<rparr>"
  by simp

lemma submit_each_complete:
  "faults w = [] \<Longrightarrow> db w job_id = Some j \<Longrightarrow> status j \<noteq> ''failed'' \<Longrightarrow> rs \<noteq> [] \<Longrightarrow>
   length (analysis_reports j) + length rs = length (analyzers_to_execute j) \<Longrightarrow>
   submit_each job_id rs w =
     (replicate (length rs) (Inr ()),
      w\<lparr>db := (db w)(job_id \<mapsto> j\<lparr>analysis_reports := analysis_reports j @ rs,
                 status := status_to_set (analysis_reports j @ rs),
                 finished_analysis_time := Some (clock w (clock_reads w))\<rparr>),
        clock_reads := Suc (clock_reads w)\<rparr>)"
proof (induction rs arbitrary: w j)
  case Nil
  then show ?case by simp
next
  case (Cons r rs)
  show ?case
  proof (cases "rs = []")
    case True
    have step: "set_report_and_cleanup job_id r w =
      (Inr (), w\<lparr>db := (db w)(job_id \<mapsto> j\<lparr>analysis_reports := analysis_reports j @ [r],
                    status := status_to_set (analysis_reports j @ [r]),
                    finished_analysis_time := Some (clock w (clock_reads w))\<rparr>),
               clock_reads := Suc (clock_reads w)\<rparr>)"
      using Cons.prems True by (intro submit_last) auto
    show ?thesis
      unfolding True submit_each.simps step prod.case
      by (simp only: list.size replicate.simps One_nat_def add_0 plus_nat.simps)
  next
    case False
    let ?j1 = "j\<lparr>analysis_reports := analysis_reports j @ [r]\<rparr>"
    let ?w1 = "w\<lparr>db := (db w)(job_id \<mapsto> ?j1)\<rparr>"
    have ne: "length (analysis_reports j) + 1 \<noteq> length (analyzers_to_execute j)"
      using Cons.prems False by (cases rs) auto
    have step: "set_report_and_cleanup job_id r w = (Inr (), ?w1)"
      using Cons.prems ne by (intro submit_not_last) auto
    have rest: "submit_each job_id rs ?w1 =
     (replicate (length rs) (Inr ()),
      ?w1\<lparr>db := (db ?w1)(job_id \<mapsto> ?j1\<lparr>analysis_reports := analysis_reports ?j1 @ rs,
                 status := status_to_set (analysis_reports ?j1 @ rs),
                 finished_analysis_time := Some (clock ?w1 (clock_reads ?w1))\<rparr>),
        clock_reads := Suc (clock_reads ?w1)\<rparr>)"
      using Cons.prems False by (intro Cons.IH) auto
    have sel: "clock ?w1 = clock w" "clock_reads ?w1 = clock_reads w"
      "analysis_reports ?j1 @ rs = analysis_reports j @ r # rs"
      by simp_all
    show ?thesis
      unfolding submit_each.simps step prod.case rest
      by (simp only: put_then_finish job_reports_finish sel length_Cons replicate_Suc)
  qed
qed

lemma submit_over_complete:
  assumes "faults w = []" "db w job_id = Some j"
    "length (analyzers_to_execute j) \<le> length (analysis_reports j)"
  shows "\<exists>w' j'. set_report_and_cleanup job_id r w = (Inr (), w') \<and> db w' job_id = Some j'
     \<and> status j' = status j \<and> finished_analysis_time j' = finished_analysis_time j
     \<and> analyzers_to_execute j' = analyzers_to_execute j
     \<and> clock_reads w' = clock_reads w \<and> clock w' = clock w \<and> faults w' = []"
proof (cases "status j = ''failed''")
  case True
  with assms show ?thesis by (simp add: submit_failed)
next
  case False
  with assms have "set_report_and_cleanup job_id r w =
     (Inr (), w\<lparr>db := (db w)(job_id \<mapsto> j\<lparr>analysis_reports := analysis_reports j @ [r]\<rparr>)\<rparr>)"
    by (intro submit_not_last) auto
  with assms show ?thesis by simp
qed


lemma status_to_set_claimed:
  assumes "rs \<noteq> []"
  shows "status_to_set rs =
     (if \<forall>r\<in>set rs. report_success r then ''reported_without_fails''
      else if \<forall>r\<in>set rs. \<not> report_success r then ''failed''
      else ''reported_with_fails'')"
proof -
  from assms obtain r where "r \<in> set rs" by (cases rs) auto
  then show ?thesis
    unfolding status_to_set_cases report_success_def by auto
qed

lemma dict_get_missing: "map_of r k = None \<Longrightarrow> dict_get r k d = d"
  by (simp add: dict_get_def)

lemma dict_get_dict_set: "dict_get (dict_set r k v) k d = v"
  by (simp add: dict_get_def dict_set_def update_conv')

section \<open>A store operation that fails after the transaction\<close>

lemma except_Exception_ok:
  assumes "db w job_id = Some row" and "set (take 3 (faults w)) \<subseteq> {None}"
  shows "\<exists>w'. except_Exception job_id e (Some obj) w = (Inr (), w')
     \<and> db w' job_id = Some (row\<lparr>status := ''failed'', errors := errors row @ [exc_str e],
                                 finished_analysis_time := Some (clock w (clock_reads w))\<rparr>)
     \<and> clock_reads w' = Suc (clock_reads w)"
proof -
  consider "faults w = []" | "faults w = [None]" | "faults w = [None, None]"
    | fs where "faults w = None # None # None # fs"
  proof (cases "faults w")
    case Nil
    then show ?thesis using that by simp
  next
    case c1: (Cons a as)
    with assms have a: "a = None" by simp
    show ?thesis
    proof (cases as)
      case Nil
      with c1 a show ?thesis using that by simp
    next
      case c2: (Cons b bs)
      with c1 assms have b: "b = None" by simp
      show ?thesis
      proof (cases bs)
        case Nil
        with c1 c2 a b show ?thesis using that by simp
      next
        case c3: (Cons c cs)
        with c1 c2 assms have "c = None" by simp
        with c1 c2 c3 a b show ?thesis using that by simp
      qed
    qed
  qed
  then show ?thesis
    using assms(1)
    by cases
      (simp_all add: except_Exception_def set_job_status_def object_by_job_id_def save_def
        save_update_fields_def next_fault_def get_now_def copy_field_def)
qed

lemma try_block_fails:
  assumes "db w job_id = Some j" and "status j \<noteq> ''failed''"
    and "length (analysis_reports j) + 1 = length (analyzers_to_execute j)"
    and "faults w = None # None # replicate k None @ Some msg # fs" and "k \<le> 2"
  shows "\<exists>obj w1 row. try_block job_id report w = (Inl (Exc DatabaseError msg), Some obj, w1)
     \<and> faults w1 = fs \<and> clock w1 = clock w
     \<and> clock_reads w1 = clock_reads w + (if k = 2 then 1 else 0)
     \<and> db w1 job_id = Some row
     \<and> analysis_reports row = analysis_reports j @ [report]
     \<and> errors row = errors j"
proof -
  from assms(5) consider "k = 0" | "k = 1" | "k = 2" by linarith
  then show ?thesis
    using assms(1-4)
    by cases
      (simp_all add: try_block_def atomic_def append_report_def check_last_analysis_def
        set_job_status_def object_by_job_id_def save_def save_update_fields_def next_fault_def
        get_now_def copy_field_def Let_def numeral_2_eq_2)
qed

section \<open>The steps of the lifecycle\<close>

lemma submit_returns:
  assumes "faults w = []" and "db w job_id = Some j"
  shows "\<exists>w'. set_report_and_cleanup job_id report w = (Inr (), w')"
proof (cases "status j = ''failed''")
  case True
  with assms show ?thesis by (simp add: submit_failed)
next
  case nf: False
  show ?thesis
  proof (cases "length (analysis_reports j) + 1 = length (analyzers_to_execute j)")
    case True
    from submit_last [OF assms nf True, of report] show ?thesis by simp
  next
    case False
    from submit_not_last [OF assms nf False, of report] show ?thesis by simp
  qed
qed

lemma template_value:
  "get_basic_report_template strftime name w =
     ([(''name'', PStr name), (''success'', PBool False), (''report'', PDict []),
       (''errors'', PList []), (''process_time'', PInt 0),
       (''started_time'', PFloat (clock w (clock_reads w))),
       (''started_time_str'', PStr (strftime (clock w (Suc (clock_reads w)))))],
      w\<lparr>clock_reads := Suc (Suc (clock_reads w))\<rparr>)"
  by (simp add: get_basic_report_template_def get_now_def)

lemma start_steps:
  assumes "before_run a = None" and "after_run a = None"
    and "run_contained a (fst (get_basic_report_template strftime (analyzer_name a) w)) = Inr report1"
    and "set_process_time report1 (clock w (Suc (Suc (clock_reads w)))) = Inr report2"
    and "set_report_and_cleanup (analyzer_job_id a) report2
           (w\<lparr>clock_reads := Suc (Suc (Suc (clock_reads w)))\<rparr>) = (Inr (), w')"
  shows "start strftime a w = (Inr report2, w')"
  using assms by (simp add: start_def template_value get_now_def)

lemma run_contained_failure:
  assumes "run a = Inl e" and "is_Exception e"
  shows "\<exists>m. run_contained a
           [(''name'', PStr name), (''success'', PBool False), (''report'', PDict []),
            (''errors'', PList []), (''process_time'', PInt 0),
            (''started_time'', PFloat t0), (''started_time_str'', PStr s)]
         = Inr [(''name'', PStr name), (''success'', PBool False), (''report'', PDict []),
            (''errors'', PList [PStr m]), (''process_time'', PInt 0),
            (''started_time'', PFloat t0), (''started_time_str'', PStr s)]"
  using assms
  by (simp add: run_contained_def handle_analyzer_exception_def handle_base_exception_def
      errors_append_def dict_set_def Let_def)

lemma run_contained_success:
  assumes "run a = Inr result"
  shows "run_contained a
           [(''name'', PStr name), (''success'', PBool False), (''report'', PDict []),
            (''errors'', PList []), (''process_time'', PInt 0),
            (''started_time'', PFloat t0), (''started_time_str'', PStr s)]
         = Inr [(''name'', PStr name), (''success'', PBool True), (''report'', result),
            (''errors'', PList []), (''process_time'', PInt 0),
            (''started_time'', PFloat t0), (''started_time_str'', PStr s)]"
  using assms by (simp add: run_contained_def dict_set_def)

section \<open>Queries that are not ready\<close>



lemma poll_negative_distance:
  assumes "poll_distance a < 0" and "0 < max_tries a"
  shows "poll_for_result a wk req_key n
     = (Inl (Exc ValueError ''sleep length must be non-negative''), n)"
proof -
  from assms(2) obtain m where "nat (max_tries a) = Suc m"
    by (metis Suc_pred' zero_less_nat_eq)
  with assms(1) show ?thesis by (simp add: poll_for_result_def sleep_def)
qed




section \<open>The sticky failure\<close>

text \<open>
  Claim C2, as stated, fails: the code saves the report before it tests the status, inside
  the \<^verbatim>\<open>try\<close> whose \<^verbatim>\<open>except Exception\<close> clause writes to the job. When that save
  fails for a job in status \<^verbatim>\<open>failed\<close>, the clause appends the error text to the job's
  errors and sets \<^verbatim>\<open>finished_analysis_time\<close>. When the load of the job fails,
  \<^verbatim>\<open>job_object\<close> is still \<^verbatim>\<open>None\<close> in the clause and the call raises.
\<close>

theorem failed_job_mutated_counterexample:
  "fst (set_report_and_cleanup 1 [(''name'', PStr ''a''), (''success'', PBool True)]
       \<lparr>db = map_of [(1, \<lparr>status = ''failed'', analyzers_to_execute = [''a'', ''b''],
                   analysis_reports = [], finished_analysis_time = None, errors = []\<rparr>)],
        faults = [None, Some ''deadlock''], clock = of_nat, clock_reads = 0\<rparr>)
   = Inr ()
   \<and> errors (the (db (snd (set_report_and_cleanup 1
       [(''name'', PStr ''a''), (''success'', PBool True)]
       \<lparr>db = map_of [(1, \<lparr>status = ''failed'', analyzers_to_execute = [''a'', ''b''],
                   analysis_reports = [], finished_analysis_time = None, errors = []\<rparr>)],
        faults = [None, Some ''deadlock''], clock = of_nat, clock_reads = 0\<rparr>)) 1))
     = [''deadlock'']
   \<and> finished_analysis_time (the (db (snd (set_report_and_cleanup 1
       [(''name'', PStr ''a''), (''success'', PBool True)]
       \<lparr>db = map_of [(1, \<lparr>status = ''failed'', analyzers_to_execute = [''a'', ''b''],
                   analysis_reports = [], finished_analysis_time = None, errors = []\<rparr>)],
        faults = [None, Some ''deadlock''], clock = of_nat, clock_reads = 0\<rparr>)) 1))
     = Some 0
   \<and> fst (set_report_and_cleanup 1 [(''name'', PStr ''a''), (''success'', PBool True)]
       \<lparr>db = map_of [(1, \<lparr>status = ''failed'', analyzers_to_execute = [''a'', ''b''],
                   analysis_reports = [], finished_analysis_time = None, errors = []\<rparr>)],
        faults = [Some ''deadlock''], clock = of_nat, clock_reads = 0\<rparr>)
   = Inl (Exc AttributeError
       (quoted ''NoneType'' @ '' object has no attribute '' @ quoted ''finished_analysis_time''))"
  by (simp add: set_report_and_cleanup_def try_block_def atomic_def append_report_def
      object_by_job_id_def save_update_fields_def save_def next_fault_def Let_def copy_field_def
      set_job_status_def get_now_def except_Exception_def is_Exception_def no_attribute_def)

text \<open>
  Claim C2, amended. When the job's row has status \<^verbatim>\<open>failed\<close> at submission time and the
  two store operations of the transaction (the load of the job and the save of
  \<^verbatim>\<open>analysis_reports\<close>) succeed, \<^verbatim>\<open>set_report_and_cleanup\<close> returns without raising and
  leaves every row as it was: the append is rolled back with the transaction, and
  neither the status nor \<^verbatim>\<open>finished_analysis_time\<close> is written. The clock is not read.
  All that changes in the world is that the two store operations have happened.
\<close>

theorem failed_job_is_not_mutated:
  assumes "db w job_id = Some j" "status j = ''failed''" "set (take 2 (faults w)) \<subseteq> {None}"
  shows "set_report_and_cleanup job_id report w = (Inr (), w\<lparr>faults := drop 2 (faults w)\<rparr>)"
proof (cases "faults w")
  case Nil
  with assms show ?thesis by (simp add: submit_failed)
next
  case outer: (Cons f fs)
  with assms have f: "f = None" by simp
  show ?thesis
  proof (cases fs)
    case Nil
    with outer f assms show ?thesis
      by (simp add: set_report_and_cleanup_def try_block_def atomic_def append_report_def
          object_by_job_id_def save_update_fields_def next_fault_def Let_def)
  next
    case (Cons g gs)
    with outer f assms have "g = None" by simp
    with Cons outer f assms show ?thesis
      by (simp add: set_report_and_cleanup_def try_block_def atomic_def append_report_def
          object_by_job_id_def save_update_fields_def next_fault_def Let_def)
  qed
qed

theorem failed_job_is_not_mutated_witness:
  "set_report_and_cleanup 1 [(''name'', PStr ''a''), (''success'', PBool True)]
     \<lparr>db = [1 \<mapsto> \<lparr>status = ''failed'', analyzers_to_execute = [''a'', ''b''],
                   analysis_reports = [], finished_analysis_time = None, errors = []\<rparr>],
      faults = [None, None, Some ''down''], clock = of_nat, clock_reads = 0\<rparr>
   = (Inr (),
     \<lparr>db = [1 \<mapsto> \<lparr>status = ''failed'', analyzers_to_execute = [''a'', ''b''],
                   analysis_reports = [], finished_analysis_time = None, errors = []\<rparr>],
      faults = [Some ''down''], clock = of_nat, clock_reads = 0\<rparr>)"
  using failed_job_is_not_mutated [of
      "\<lparr>db = [1 \<mapsto> \<lparr>status = ''failed'', analyzers_to_execute = [''a'', ''b''],
                   analysis_reports = [], finished_analysis_time = None, errors = []\<rparr>],
        faults = [None, None, Some ''down''], clock = of_nat, clock_reads = 0\<rparr>"
      1
      "\<lparr>status = ''failed'', analyzers_to_execute = [''a'', ''b''],
        analysis_reports = [], finished_analysis_time = None, errors = []\<rparr>"
      "[(''name'', PStr ''a''), (''success'', PBool True)]"]
  by simp

section \<open>A job whose analyzers have all reported\<close>

text \<open>
  Claim C1. A job with \<open>N \<ge> 1\<close> analyzers to execute, no report yet and a status
  other than \<^verbatim>\<open>failed\<close>; the store works. After the \<open>N\<close> reports have been
  submitted, one call each, no call has raised, the row holds the \<open>N\<close> reports and its
  status is \<^verbatim>\<open>reported_without_fails\<close> when every report's success flag holds,
  \<^verbatim>\<open>failed\<close> when none does and \<^verbatim>\<open>reported_with_fails\<close> otherwise.
  \<^verbatim>\<open>finished_analysis_time\<close> is the one reading of the clock made in the whole run:
  before the last submission neither the status nor \<^verbatim>\<open>finished_analysis_time\<close> has been
  written and the clock has not been read. The status is the same for every order of
  the reports. One more submission returns normally and leaves the status and
  \<^verbatim>\<open>finished_analysis_time\<close> as they are, without reading the clock.
\<close>

theorem all_reports_give_terminal_status:
  assumes "faults w = []" and "db w job_id = Some j" and "status j \<noteq> ''failed''"
    and "analysis_reports j = []" and "reports \<noteq> []"
    and "length reports = length (analyzers_to_execute j)"
  shows "\<exists>w' j'.
      submit_each job_id reports w = (replicate (length reports) (Inr ()), w')
    \<and> db w' job_id = Some j'
    \<and> analysis_reports j' = reports
    \<and> status j' =
        (if \<forall>r\<in>set reports. report_success r then ''reported_without_fails''
         else if \<forall>r\<in>set reports. \<not> report_success r then ''failed''
         else ''reported_with_fails'')
    \<and> finished_analysis_time j' = Some (clock w (clock_reads w))
    \<and> clock_reads w' = Suc (clock_reads w)
    \<and> (\<forall>k<length reports. \<exists>wk jk.
          snd (submit_each job_id (take k reports) w) = wk \<and> db wk job_id = Some jk
        \<and> status jk = status j \<and> finished_analysis_time jk = finished_analysis_time j
        \<and> clock_reads wk = clock_reads w)
    \<and> (\<forall>reports2. mset reports2 = mset reports \<longrightarrow>
          (\<exists>w2 j2. snd (submit_each job_id reports2 w) = w2 \<and> db w2 job_id = Some j2
             \<and> status j2 = status j'))
    \<and> (\<forall>r. \<exists>w3 j3.
          set_report_and_cleanup job_id r w' = (Inr (), w3) \<and> db w3 job_id = Some j3
        \<and> status j3 = status j' \<and> finished_analysis_time j3 = finished_analysis_time j'
        \<and> clock_reads w3 = clock_reads w')"
proof -
  let ?J = "\<lambda>rs. j\<lparr>analysis_reports := analysis_reports j @ rs,
                 status := status_to_set (analysis_reports j @ rs),
                 finished_analysis_time := Some (clock w (clock_reads w))\<rparr>"
  let ?W = "\<lambda>rs. w\<lparr>db := (db w)(job_id \<mapsto> ?J rs), clock_reads := Suc (clock_reads w)\<rparr>"
  have main: "submit_each job_id rs w = (replicate (length rs) (Inr ()), ?W rs)"
    if "rs \<noteq> []" "length rs = length (analyzers_to_execute j)" for rs
    using assms that by (intro submit_each_complete) auto
  have dbW: "db (?W rs) job_id = Some (?J rs)" for rs by simp
  have c1: "submit_each job_id reports w = (replicate (length reports) (Inr ()), ?W reports)"
    using assms by (intro main) auto
  have c3: "analysis_reports (?J reports) = reports" using assms by simp
  have c4: "status (?J reports) =
        (if \<forall>r\<in>set reports. report_success r then ''reported_without_fails''
         else if \<forall>r\<in>set reports. \<not> report_success r then ''failed''
         else ''reported_with_fails'')"
    using assms status_to_set_claimed [of reports] by simp
  have c5: "finished_analysis_time (?J reports) = Some (clock w (clock_reads w))" by simp
  have c6: "clock_reads (?W reports) = Suc (clock_reads w)" by simp
  have c7: "\<exists>wk jk.
          snd (submit_each job_id (take k reports) w) = wk \<and> db wk job_id = Some jk
        \<and> status jk = status j \<and> finished_analysis_time jk = finished_analysis_time j
        \<and> clock_reads wk = clock_reads w" if "k < length reports" for k
  proof -
    have "submit_each job_id (take k reports) w =
      (replicate (length (take k reports)) (Inr ()),
       w\<lparr>db := (db w)(job_id \<mapsto> j\<lparr>analysis_reports := analysis_reports j @ take k reports\<rparr>)\<rparr>)"
      using assms that by (intro submit_each_partial) auto
    then show ?thesis by simp
  qed
  have c8: "\<exists>w2 j2. snd (submit_each job_id reports2 w) = w2 \<and> db w2 job_id = Some j2
             \<and> status j2 = status (?J reports)" if "mset reports2 = mset reports" for reports2
  proof -
    from that have len: "length reports2 = length reports" by (rule mset_eq_length)
    from that have st: "set reports2 = set reports" by (rule mset_eq_setD)
    from len assms have ne: "reports2 \<noteq> []" by auto
    have "submit_each job_id reports2 w = (replicate (length reports2) (Inr ()), ?W reports2)"
      using len ne assms by (intro main) auto
    moreover have "status_to_set reports2 = status_to_set reports"
      unfolding status_to_set_cases st ..
    ultimately show ?thesis using assms by simp
  qed
  have c9: "\<exists>w3 j3.
          set_report_and_cleanup job_id r (?W reports) = (Inr (), w3) \<and> db w3 job_id = Some j3
        \<and> status j3 = status (?J reports)
        \<and> finished_analysis_time j3 = finished_analysis_time (?J reports)
        \<and> clock_reads w3 = clock_reads (?W reports)" for r
  proof -
    have "faults (?W reports) = []" using assms by simp
    moreover have "length (analyzers_to_execute (?J reports)) \<le> length (analysis_reports (?J reports))"
      using assms by simp
    ultimately show ?thesis
      using submit_over_complete [of "?W reports" job_id "?J reports" r] dbW [of reports] by blast
  qed
  show ?thesis
    apply (rule exI [of _ "?W reports"])
    apply (rule exI [of _ "?J reports"])
    apply (intro conjI allI impI)
            apply (rule c1)
           apply (rule dbW)
          apply (rule c3)
         apply (rule c4)
        apply (rule c5)
       apply (rule c6)
      apply (erule c7)
     apply (erule c8)
    apply (rule c9)
    done
qed

theorem all_reports_give_terminal_status_witness:
  "\<exists>w' j'.
     submit_each 1 [[(''name'', PStr ''a''), (''success'', PBool True)],
                    [(''name'', PStr ''b''), (''success'', PBool False)]]
       \<lparr>db = map_of [(1, \<lparr>status = ''running'', analyzers_to_execute = [''a'', ''b''],
                   analysis_reports = [], finished_analysis_time = None, errors = []\<rparr>)],
        faults = [], clock = of_nat, clock_reads = 5\<rparr>
     = ([Inr (), Inr ()], w')
   \<and> db w' 1 = Some j' \<and> status j' = ''reported_with_fails''
   \<and> finished_analysis_time j' = Some 5 \<and> clock_reads w' = 6"
proof -
  let ?j = "\<lparr>status = ''running'', analyzers_to_execute = [''a'', ''b''],
             analysis_reports = [], finished_analysis_time = None, errors = []\<rparr>"
  let ?w = "\<lparr>db = map_of [(1, ?j)], faults = [], clock = of_nat, clock_reads = 5\<rparr>"
  let ?rs = "[[(''name'', PStr ''a''), (''success'', PBool True)],
              [(''name'', PStr ''b''), (''success'', PBool False)]]"
  have "faults ?w = []" "db ?w 1 = Some ?j" "status ?j \<noteq> ''failed''"
    "analysis_reports ?j = []" "?rs \<noteq> []" "length ?rs = length (analyzers_to_execute ?j)"
    by simp_all
  from all_reports_give_terminal_status [OF this]
  obtain w' j' where a: "submit_each 1 ?rs ?w = (replicate (length ?rs) (Inr ()), w')"
    and b: "db w' 1 = Some j'"
    and c: "status j' =
        (if \<forall>r\<in>set ?rs. report_success r then ''reported_without_fails''
         else if \<forall>r\<in>set ?rs. \<not> report_success r then ''failed''
         else ''reported_with_fails'')"
    and d: "finished_analysis_time j' = Some (clock ?w (clock_reads ?w))"
    and e: "clock_reads w' = Suc (clock_reads ?w)"
    by blast
  from c have "status j' = ''reported_with_fails''"
    by (simp add: report_success_def dict_get_def)
  with a b d e show ?thesis by simp
qed

section \<open>The number of reports of a job\<close>

text \<open>
  Claim C4, as stated, fails: \<^verbatim>\<open>set_report_and_cleanup\<close> never compares the number of
  reports with the number of analyzers before it appends. A job with one analyzer to
  execute that receives the same successful report twice ends with two reports.
\<close>

theorem report_bound_counterexample:
  "length (analysis_reports (the (db (snd (submit_each 1
       [[(''name'', PStr ''a''), (''success'', PBool True)],
        [(''name'', PStr ''a''), (''success'', PBool True)]]
       \<lparr>db = map_of [(1, \<lparr>status = ''running'', analyzers_to_execute = [''a''],
                   analysis_reports = [], finished_analysis_time = None, errors = []\<rparr>)],
        faults = [], clock = of_nat, clock_reads = 0\<rparr>)) 1))) = 2
   \<and> length (analyzers_to_execute (the (db (snd (submit_each 1
       [[(''name'', PStr ''a''), (''success'', PBool True)],
        [(''name'', PStr ''a''), (''success'', PBool True)]]
       \<lparr>db = map_of [(1, \<lparr>status = ''running'', analyzers_to_execute = [''a''],
                   analysis_reports = [], finished_analysis_time = None, errors = []\<rparr>)],
        faults = [], clock = of_nat, clock_reads = 0\<rparr>)) 1))) = 1"
  by (simp add: set_report_and_cleanup_def try_block_def atomic_def append_report_def
      object_by_job_id_def save_update_fields_def save_def next_fault_def Let_def copy_field_def
      check_last_analysis_def set_job_status_def get_now_def status_to_set_def count_failed_def
      dict_get_def)

text \<open>
  Claim C4, amended. With a job store whose operations succeed, a submission returns
  normally and keeps \<^verbatim>\<open>analyzers_to_execute\<close>. A job in status \<^verbatim>\<open>failed\<close> gets no
  report appended. A job in any other status gets the submitted report appended,
  whatever the two lengths are: also when they are already equal, and when the bound is
  already exceeded. So \<^verbatim>\<open>len(analysis_reports) <= len(analyzers_to_execute)\<close> holds after
  every submission to a job that had fewer reports than analyzers, and after every
  submission to a job in status \<^verbatim>\<open>failed\<close> that satisfied it before.
\<close>

theorem report_bound_while_incomplete:
  assumes "faults w = []" and "db w job_id = Some j"
  shows "\<exists>w' j'.
      set_report_and_cleanup job_id report w = (Inr (), w')
    \<and> db w' job_id = Some j'
    \<and> analyzers_to_execute j' = analyzers_to_execute j
    \<and> (status j = ''failed'' \<longrightarrow> analysis_reports j' = analysis_reports j)
    \<and> (status j \<noteq> ''failed'' \<longrightarrow> analysis_reports j' = analysis_reports j @ [report])
    \<and> (length (analysis_reports j) < length (analyzers_to_execute j)
         \<longrightarrow> length (analysis_reports j') \<le> length (analyzers_to_execute j'))
    \<and> (status j = ''failed''
         \<and> length (analysis_reports j) \<le> length (analyzers_to_execute j)
         \<longrightarrow> length (analysis_reports j') \<le> length (analyzers_to_execute j'))"
proof (cases "status j = ''failed''")
  case True
  with assms show ?thesis by (simp add: submit_failed)
next
  case nf: False
  show ?thesis
  proof (cases "length (analysis_reports j) + 1 = length (analyzers_to_execute j)")
    case True
    from submit_last [OF assms nf True, of report] nf show ?thesis by simp
  next
    case False
    from submit_not_last [OF assms nf False, of report] nf show ?thesis by auto
  qed
qed

theorem report_bound_while_incomplete_witness:
  "\<exists>w' j'.
     set_report_and_cleanup 1 [(''name'', PStr ''b''), (''success'', PBool True)]
       \<lparr>db = map_of [(1, \<lparr>status = ''running'', analyzers_to_execute = [''a'', ''b''],
                   analysis_reports = [[(''name'', PStr ''a''), (''success'', PBool True)]],
                   finished_analysis_time = None, errors = []\<rparr>)],
        faults = [], clock = of_nat, clock_reads = 0\<rparr>
     = (Inr (), w')
   \<and> db w' 1 = Some j'
   \<and> length (analysis_reports j') \<le> length (analyzers_to_execute j')
   \<and> analysis_reports j' = [[(''name'', PStr ''a''), (''success'', PBool True)],
                              [(''name'', PStr ''b''), (''success'', PBool True)]]"
proof -
  let ?j = "\<lparr>status = ''running'', analyzers_to_execute = [''a'', ''b''],
             analysis_reports = [[(''name'', PStr ''a''), (''success'', PBool True)]],
             finished_analysis_time = None, errors = []\<rparr>"
  let ?w = "\<lparr>db = map_of [(1, ?j)], faults = [], clock = of_nat, clock_reads = 0\<rparr>"
  have "faults ?w = []" "db ?w 1 = Some ?j"
    by simp_all
  from report_bound_while_incomplete [OF this, of "[(''name'', PStr ''b''), (''success'', PBool True)]"]
  show ?thesis by simp blast
qed

section \<open>Reports without a success key\<close>

text \<open>
  Claim C10. When the submission that completes a job finds no \<^verbatim>\<open>success\<close> key in any
  of the job's reports (the submitted one included), the status it sets is
  \<^verbatim>\<open>failed\<close>: the status the same reports would get with \<^verbatim>\<open>success\<close> set to
  \<^verbatim>\<open>False\<close> in each.
\<close>

theorem missing_success_counts_as_failed:
  assumes "faults w = []" and "db w job_id = Some j" and "status j \<noteq> ''failed''"
    and "length (analysis_reports j) + 1 = length (analyzers_to_execute j)"
    and "\<forall>r\<in>set (analysis_reports j @ [report]). map_of r ''success'' = None"
  shows "\<exists>w' j'.
      set_report_and_cleanup job_id report w = (Inr (), w')
    \<and> db w' job_id = Some j'
    \<and> analysis_reports j' = analysis_reports j @ [report]
    \<and> status j' = ''failed''
    \<and> status j' = status_to_set (map (\<lambda>r. dict_set r ''success'' (PBool False))
                       (analysis_reports j @ [report]))"
proof -
  let ?rs = "analysis_reports j @ [report]"
  have a: "status_to_set ?rs = ''failed''"
    unfolding status_to_set_cases using assms(5) by (simp add: dict_get_missing)
  have b: "status_to_set (map (\<lambda>r. dict_set r ''success'' (PBool False)) ?rs) = ''failed''"
    unfolding status_to_set_cases by (simp add: dict_get_dict_set)
  from submit_last [OF assms(1-4), of report] a b show ?thesis by simp
qed

theorem missing_success_counts_as_failed_witness:
  "\<exists>w' j'.
     set_report_and_cleanup 1 [(''name'', PStr ''b'')]
       \<lparr>db = map_of [(1, \<lparr>status = ''running'', analyzers_to_execute = [''a'', ''b''],
                   analysis_reports = [[(''name'', PStr ''a'')]],
                   finished_analysis_time = None, errors = []\<rparr>)],
        faults = [], clock = of_nat, clock_reads = 0\<rparr>
     = (Inr (), w')
   \<and> db w' 1 = Some j' \<and> status j' = ''failed''"
proof -
  let ?j = "\<lparr>status = ''running'', analyzers_to_execute = [''a'', ''b''],
             analysis_reports = [[(''name'', PStr ''a'')]],
             finished_analysis_time = None, errors = []\<rparr>"
  let ?w = "\<lparr>db = map_of [(1, ?j)], faults = [], clock = of_nat, clock_reads = 0\<rparr>"
  have "faults ?w = []" "db ?w 1 = Some ?j" "status ?j \<noteq> ''failed''"
    "length (analysis_reports ?j) + 1 = length (analyzers_to_execute ?j)"
    "\<forall>r\<in>set (analysis_reports ?j @ [[(''name'', PStr ''b'')]]). map_of r ''success'' = None"
    by simp_all
  from missing_success_counts_as_failed [OF this]
  show ?thesis by blast
qed

section \<open>Errors while the terminal status is set\<close>

text \<open>
  Claim C5, as stated, fails: the \<^verbatim>\<open>except Exception\<close> clause itself calls
  \<^verbatim>\<open>set_job_status\<close> and \<^verbatim>\<open>save\<close>, outside any \<^verbatim>\<open>try\<close>. When the store fails
  while the terminal status is written and fails again on the handler's first
  operation, the second error leaves \<^verbatim>\<open>set_report_and_cleanup\<close> and the status
  of the job is not set to \<^verbatim>\<open>failed\<close>.
\<close>

theorem aggregation_error_counterexample:
  "fst (set_report_and_cleanup 1 [(''name'', PStr ''a''), (''success'', PBool True)]
       \<lparr>db = map_of [(1, \<lparr>status = ''running'', analyzers_to_execute = [''a''],
                   analysis_reports = [], finished_analysis_time = None, errors = []\<rparr>)],
        faults = [None, None, Some ''connection lost'', Some ''connection lost''],
        clock = of_nat, clock_reads = 0\<rparr>)
   = Inl (Exc DatabaseError ''connection lost'')
   \<and> status (the (db (snd (set_report_and_cleanup 1
       [(''name'', PStr ''a''), (''success'', PBool True)]
       \<lparr>db = map_of [(1, \<lparr>status = ''running'', analyzers_to_execute = [''a''],
                   analysis_reports = [], finished_analysis_time = None, errors = []\<rparr>)],
        faults = [None, None, Some ''connection lost'', Some ''connection lost''],
        clock = of_nat, clock_reads = 0\<rparr>)) 1)) = ''running''"
  by (simp add: set_report_and_cleanup_def try_block_def atomic_def append_report_def
      object_by_job_id_def save_update_fields_def save_def next_fault_def Let_def copy_field_def
      check_last_analysis_def set_job_status_def get_now_def status_to_set_def count_failed_def
      dict_get_def except_Exception_def is_Exception_def)

text \<open>
  Claim C5, amended. The submission completes the job; the two store operations of the
  transaction work, and one of the three store operations that follow (the load and
  the save of \<^verbatim>\<open>set_job_status\<close>, the save of \<^verbatim>\<open>finished_analysis_time\<close>) raises
  with text \<open>msg\<close>. When the three store operations of the \<^verbatim>\<open>except\<close> clause work,
  \<^verbatim>\<open>set_report_and_cleanup\<close> returns normally, the row has status \<^verbatim>\<open>failed\<close>,
  \<open>msg\<close> is appended to its errors, and \<^verbatim>\<open>finished_analysis_time\<close> is the reading of
  the clock made in the \<^verbatim>\<open>except\<close> clause.
\<close>

theorem aggregation_error_forces_failed:
  assumes "db w job_id = Some j" and "status j \<noteq> ''failed''"
    and "length (analysis_reports j) + 1 = length (analyzers_to_execute j)"
    and "faults w = None # None # replicate k None @ Some msg # fs" and "k \<le> 2"
    and "set (take 3 fs) \<subseteq> {None}"
  shows "\<exists>w' j'.
      set_report_and_cleanup job_id report w = (Inr (), w')
    \<and> db w' job_id = Some j'
    \<and> status j' = ''failed''
    \<and> errors j' = errors j @ [msg]
    \<and> finished_analysis_time j' = Some (clock w (clock_reads w + (if k = 2 then 1 else 0)))
    \<and> analysis_reports j' = analysis_reports j @ [report]"
proof -
  from try_block_fails [OF assms(1-5), of report]
  obtain obj w1 row where t: "try_block job_id report w = (Inl (Exc DatabaseError msg), Some obj, w1)"
    and f: "faults w1 = fs" and c: "clock w1 = clock w"
    and r: "clock_reads w1 = clock_reads w + (if k = 2 then 1 else 0)"
    and d: "db w1 job_id = Some row"
    and a: "analysis_reports row = analysis_reports j @ [report]"
    and e: "errors row = errors j"
    by blast
  from assms(6) f have "set (take 3 (faults w1)) \<subseteq> {None}" by simp
  from except_Exception_ok [OF d this, of "Exc DatabaseError msg" obj]
  obtain w' where x: "except_Exception job_id (Exc DatabaseError msg) (Some obj) w1 = (Inr (), w')"
    and y: "db w' job_id = Some (row\<lparr>status := ''failed'',
                 errors := errors row @ [exc_str (Exc DatabaseError msg)],
                 finished_analysis_time := Some (clock w1 (clock_reads w1))\<rparr>)"
    by blast
  have "set_report_and_cleanup job_id report w = (Inr (), w')"
    by (simp add: set_report_and_cleanup_def t x is_Exception_def)
  with y a e c r show ?thesis by simp
qed

theorem aggregation_error_forces_failed_witness:
  "\<exists>w' j'.
     set_report_and_cleanup 1 [(''name'', PStr ''a''), (''success'', PBool True)]
       \<lparr>db = map_of [(1, \<lparr>status = ''running'', analyzers_to_execute = [''a''],
                   analysis_reports = [], finished_analysis_time = None, errors = []\<rparr>)],
        faults = [None, None, None, None, Some ''disk full''],
        clock = of_nat, clock_reads = 0\<rparr>
     = (Inr (), w')
   \<and> db w' 1 = Some j' \<and> status j' = ''failed'' \<and> errors j' = [''disk full'']
   \<and> finished_analysis_time j' = Some 1"
proof -
  let ?j = "\<lparr>status = ''running'', analyzers_to_execute = [''a''],
             analysis_reports = [], finished_analysis_time = None, errors = []\<rparr>"
  let ?w = "\<lparr>db = map_of [(1, ?j)], faults = [None, None, None, None, Some ''disk full''],
             clock = of_nat, clock_reads = 0\<rparr>"
  have "db ?w 1 = Some ?j" "status ?j \<noteq> ''failed''"
    "length (analysis_reports ?j) + 1 = length (analyzers_to_execute ?j)"
    "faults ?w = None # None # replicate 2 None @ Some ''disk full'' # []" "(2::nat) \<le> 2"
    "set (take 3 []) \<subseteq> {None :: string option}"
    by (simp_all add: numeral_2_eq_2)
  from aggregation_error_forces_failed [OF this,
      of "[(''name'', PStr ''a''), (''success'', PBool True)]"]
  show ?thesis by simp blast
qed

section \<open>The lifecycle runner\<close>

text \<open>
  Claim C3, as stated, fails: \<^verbatim>\<open>self.before_run()\<close> is called before the \<^verbatim>\<open>try\<close>
  statement of \<^verbatim>\<open>start\<close>, so an exception it raises leaves \<^verbatim>\<open>start\<close>; nothing is
  reported to the job.
\<close>

theorem start_raises_counterexample:
  "start fixed_strftime
     \<lparr>analyzer_name = ''a'', analyzer_job_id = 1,
      before_run = Some (Exc OtherException ''boom''), run = Inr PNone, after_run = None\<rparr>
     \<lparr>db = map_of [(1, \<lparr>status = ''running'', analyzers_to_execute = [''a''],
                   analysis_reports = [], finished_analysis_time = None, errors = []\<rparr>)],
      faults = [], clock = of_nat, clock_reads = 0\<rparr>
   = (Inl (Exc OtherException ''boom''),
     \<lparr>db = map_of [(1, \<lparr>status = ''running'', analyzers_to_execute = [''a''],
                   analysis_reports = [], finished_analysis_time = None, errors = []\<rparr>)],
      faults = [], clock = of_nat, clock_reads = 0\<rparr>)"
  by (simp add: start_def)

text \<open>
  Claim C3, amended. \<^verbatim>\<open>before_run\<close> and \<^verbatim>\<open>after_run\<close> return normally, \<^verbatim>\<open>run\<close>
  returns or raises an exception below \<^verbatim>\<open>Exception\<close>, the store works and holds the
  job's row. Then \<^verbatim>\<open>start\<close> does not raise: it returns the report it has handed to
  \<^verbatim>\<open>set_report_and_cleanup\<close>, after three readings of the clock. The report's
  \<^verbatim>\<open>process_time\<close> is the third reading minus \<^verbatim>\<open>started_time\<close>, the first reading.
  When \<^verbatim>\<open>run\<close> has raised, the report has \<^verbatim>\<open>success\<close> false and a non-empty list of
  errors.
\<close>

theorem start_contains_run_failure:
  assumes "before_run a = None" and "after_run a = None"
    and "case run a of Inl e \<Rightarrow> is_Exception e | Inr result \<Rightarrow> True"
    and "faults w = []" and "db w (analyzer_job_id a) = Some j"
  shows "\<exists>report w'.
      start strftime a w = (Inr report, w')
    \<and> set_report_and_cleanup (analyzer_job_id a) report
         (w\<lparr>clock_reads := clock_reads w + 3\<rparr>) = (Inr (), w')
    \<and> map_of report ''started_time'' = Some (PFloat (clock w (clock_reads w)))
    \<and> map_of report ''process_time''
        = Some (PFloat (clock w (clock_reads w + 2) - clock w (clock_reads w)))
    \<and> (\<forall>e. run a = Inl e \<longrightarrow>
          map_of report ''success'' = Some (PBool False)
        \<and> (\<exists>es. map_of report ''errors'' = Some (PList es) \<and> es \<noteq> []))"
proof -
  let ?w2 = "w\<lparr>clock_reads := Suc (Suc (Suc (clock_reads w)))\<rparr>"
  let ?t0 = "clock w (clock_reads w)"
  let ?t2 = "clock w (Suc (Suc (clock_reads w)))"
  let ?s = "strftime (clock w (Suc (clock_reads w)))"
  have w2: "w\<lparr>clock_reads := clock_reads w + 3\<rparr> = ?w2" by simp
  have t2: "clock w (clock_reads w + 2) = ?t2" by simp
  have store: "faults ?w2 = []" "db ?w2 (analyzer_job_id a) = Some j"
    using assms(4,5) by simp_all
  show ?thesis
  proof (cases "run a")
    case (Inl e)
    with assms(3) have ex: "is_Exception e" by simp
    from run_contained_failure [OF Inl ex, of "analyzer_name a" ?t0 ?s]
    obtain m where rc: "run_contained a
           [(''name'', PStr (analyzer_name a)), (''success'', PBool False), (''report'', PDict []),
            (''errors'', PList []), (''process_time'', PInt 0),
            (''started_time'', PFloat ?t0), (''started_time_str'', PStr ?s)]
         = Inr [(''name'', PStr (analyzer_name a)), (''success'', PBool False), (''report'', PDict []),
            (''errors'', PList [PStr m]), (''process_time'', PInt 0),
            (''started_time'', PFloat ?t0), (''started_time_str'', PStr ?s)]"
      by blast
    let ?r2 = "[(''name'', PStr (analyzer_name a)), (''success'', PBool False), (''report'', PDict []),
            (''errors'', PList [PStr m]), (''process_time'', PFloat (?t2 - ?t0)),
            (''started_time'', PFloat ?t0), (''started_time_str'', PStr ?s)]"
    have pt: "set_process_time
          [(''name'', PStr (analyzer_name a)), (''success'', PBool False), (''report'', PDict []),
            (''errors'', PList [PStr m]), (''process_time'', PInt 0),
            (''started_time'', PFloat ?t0), (''started_time_str'', PStr ?s)] ?t2 = Inr ?r2"
      by (simp add: set_process_time_def dict_set_def)
    from submit_returns [OF store, of ?r2]
    obtain w' where sub: "set_report_and_cleanup (analyzer_job_id a) ?r2 ?w2 = (Inr (), w')"
      by blast
    have st: "start strftime a w = (Inr ?r2, w')"
      by (rule start_steps [OF assms(1,2) _ pt sub]) (simp add: template_value rc)
    show ?thesis
      apply (rule exI [of _ ?r2])
      apply (rule exI [of _ w'])
      unfolding w2 t2
      using st sub by simp
  next
    case (Inr result)
    let ?r2 = "[(''name'', PStr (analyzer_name a)), (''success'', PBool True), (''report'', result),
            (''errors'', PList []), (''process_time'', PFloat (?t2 - ?t0)),
            (''started_time'', PFloat ?t0), (''started_time_str'', PStr ?s)]"
    have pt: "set_process_time
          [(''name'', PStr (analyzer_name a)), (''success'', PBool True), (''report'', result),
            (''errors'', PList []), (''process_time'', PInt 0),
            (''started_time'', PFloat ?t0), (''started_time_str'', PStr ?s)] ?t2 = Inr ?r2"
      by (simp add: set_process_time_def dict_set_def)
    from submit_returns [OF store, of ?r2]
    obtain w' where sub: "set_report_and_cleanup (analyzer_job_id a) ?r2 ?w2 = (Inr (), w')"
      by blast
    have st: "start strftime a w = (Inr ?r2, w')"
      by (rule start_steps [OF assms(1,2) _ pt sub])
        (simp add: template_value run_contained_success [OF Inr])
    show ?thesis
      apply (rule exI [of _ ?r2])
      apply (rule exI [of _ w'])
      unfolding w2 t2
      using st sub Inr by simp
  qed
qed

theorem start_contains_run_failure_witness:
  "\<exists>report w'.
     start fixed_strftime
       \<lparr>analyzer_name = ''a'', analyzer_job_id = 1, before_run = None,
        run = Inl (Exc AnalyzerRunException ''unreachable''), after_run = None\<rparr>
       \<lparr>db = map_of [(1, \<lparr>status = ''running'', analyzers_to_execute = [''a''],
                   analysis_reports = [], finished_analysis_time = None, errors = []\<rparr>)],
        faults = [], clock = of_nat, clock_reads = 0\<rparr>
     = (Inr report, w')
   \<and> map_of report ''success'' = Some (PBool False)
   \<and> map_of report ''process_time'' = Some (PFloat 2)
   \<and> (\<exists>es. map_of report ''errors'' = Some (PList es) \<and> es \<noteq> [])"
proof -
  let ?a = "\<lparr>analyzer_name = ''a'', analyzer_job_id = 1, before_run = None,
             run = Inl (Exc AnalyzerRunException ''unreachable''), after_run = None\<rparr>"
  let ?j = "\<lparr>status = ''running'', analyzers_to_execute = [''a''],
             analysis_reports = [], finished_analysis_time = None, errors = []\<rparr>"
  let ?w = "\<lparr>db = map_of [(1, ?j)], faults = [], clock = of_nat, clock_reads = 0\<rparr>"
  have "before_run ?a = None" "after_run ?a = None"
    "case run ?a of Inl e \<Rightarrow> is_Exception e | Inr result \<Rightarrow> True"
    "faults ?w = []" "db ?w (analyzer_job_id ?a) = Some ?j"
    by (simp_all add: is_Exception_def)
  from start_contains_run_failure [OF this, of fixed_strftime]
  obtain report w' where a: "start fixed_strftime ?a ?w = (Inr report, w')"
    and b: "map_of report ''process_time''
        = Some (PFloat (clock ?w (clock_reads ?w + 2) - clock ?w (clock_reads ?w)))"
    and c: "\<forall>e. run ?a = Inl e \<longrightarrow>
          map_of report ''success'' = Some (PBool False)
        \<and> (\<exists>es. map_of report ''errors'' = Some (PList es) \<and> es \<noteq> [])"
    by blast
  from c have "map_of report ''success'' = Some (PBool False)
        \<and> (\<exists>es. map_of report ''errors'' = Some (PList es) \<and> es \<noteq> [])"
    by simp
  with a b show ?thesis by simp
qed

section \<open>Polling the worker\<close>







section \<open>The status code of the worker's response\<close>

text \<open>
  Claim C9. \<^verbatim>\<open>_check_status_code\<close> raises \<^verbatim>\<open>AnalyzerRunException\<close> saying that
  the container is not running for 404, with the body's \<^verbatim>\<open>error\<close> text for 400, saying
  that the container had an internal server error for 500; for any other code from
  400 to 599 it raises the \<^verbatim>\<open>HTTPError\<close> of \<^verbatim>\<open>raise_for_status\<close>; otherwise it
  returns \<^verbatim>\<open>True\<close>. Two responses with the same status code and body get the same
  outcome: the same class of failure or \<^verbatim>\<open>True\<close>, and the very same result except for
  the text of that \<^verbatim>\<open>HTTPError\<close>.
\<close>

theorem check_status_code_cases:
  "(status_code req = 404 \<longrightarrow>
      check_status_code repr name req
      = Inl (Exc AnalyzerRunException (name @ '' docker container is not running.'')))
   \<and> (status_code req = 400 \<and> json req = Inr (PDict d) \<and> map_of d ''error'' = Some (PStr msg) \<longrightarrow>
      check_status_code repr name req = Inl (Exc AnalyzerRunException msg))
   \<and> (status_code req = 500 \<longrightarrow>
      check_status_code repr name req
      = Inl (Exc AnalyzerRunException
          (''Internal Server Error in '' @ name @ '' docker container'')))
   \<and> (400 \<le> status_code req \<and> status_code req < 600
        \<and> status_code req \<noteq> 404 \<and> status_code req \<noteq> 400 \<and> status_code req \<noteq> 500 \<longrightarrow>
      (\<exists>m. check_status_code repr name req = Inl (Exc HTTPError m)))
   \<and> (status_code req < 400 \<or> 600 \<le> status_code req \<longrightarrow>
      check_status_code repr name req = Inr True)
   \<and> (status_code req2 = status_code req \<and> json req2 = json req \<longrightarrow>
      map_sum exc_class id (check_status_code repr name req2)
      = map_sum exc_class id (check_status_code repr name req)
      \<and> (status_code req = 404 \<or> status_code req = 400 \<or> status_code req = 500
          \<or> status_code req < 400 \<or> 600 \<le> status_code req \<longrightarrow>
         check_status_code repr name req2 = check_status_code repr name req))"
proof (intro conjI impI)
  show "check_status_code repr name req
      = Inl (Exc AnalyzerRunException (name @ '' docker container is not running.''))"
    if "status_code req = 404"
    using that by (simp add: check_status_code_def)
  show "check_status_code repr name req = Inl (Exc AnalyzerRunException msg)"
    if "status_code req = 400 \<and> json req = Inr (PDict d) \<and> map_of d ''error'' = Some (PStr msg)"
    using that by (simp add: check_status_code_def subscript_def py_str_def)
  show "check_status_code repr name req
      = Inl (Exc AnalyzerRunException
          (''Internal Server Error in '' @ name @ '' docker container''))"
    if "status_code req = 500"
    using that by (simp add: check_status_code_def)
  show "\<exists>m. check_status_code repr name req = Inl (Exc HTTPError m)"
    if "400 \<le> status_code req \<and> status_code req < 600
        \<and> status_code req \<noteq> 404 \<and> status_code req \<noteq> 400 \<and> status_code req \<noteq> 500"
    using that by (simp add: check_status_code_def raise_for_status_def)
  show "check_status_code repr name req = Inr True"
    if "status_code req < 400 \<or> 600 \<le> status_code req"
    using that by (auto simp: check_status_code_def raise_for_status_def)
  show "map_sum exc_class id (check_status_code repr name req2)
      = map_sum exc_class id (check_status_code repr name req)"
    if "status_code req2 = status_code req \<and> json req2 = json req"
    using that by (simp add: check_status_code_def raise_for_status_def split: sum.splits)
  show "check_status_code repr name req2 = check_status_code repr name req"
    if "status_code req2 = status_code req \<and> json req2 = json req"
      and "status_code req = 404 \<or> status_code req = 400 \<or> status_code req = 500
          \<or> status_code req < 400 \<or> 600 \<le> status_code req"
    using that by (auto simp: check_status_code_def raise_for_status_def)
qed

theorem check_status_code_cases_witness:
  "check_status_code (\<lambda>v. []) ''PEframe''
     \<lparr>status_code = 400, json = Inr (PDict [(''error'', PStr ''bad request key'')]),
      reason = ''Bad Request'', url = ''http://peframe/run''\<rparr>
   = Inl (Exc AnalyzerRunException ''bad request key'')
   \<and> check_status_code (\<lambda>v. []) ''PEframe''
     \<lparr>status_code = 200, json = Inr (PDict []), reason = ''OK'', url = ''http://peframe/run''\<rparr>
   = Inr True"
  using
    check_status_code_cases [where repr = "\<lambda>v. []" and name = "''PEframe''"
      and req = "\<lparr>status_code = 400, json = Inr (PDict [(''error'', PStr ''bad request key'')]),
                  reason = ''Bad Request'', url = ''http://peframe/run''\<rparr>"
      and d = "[(''error'', PStr ''bad request key'')]" and msg = "''bad request key''"
      and ?req2.0 = "\<lparr>status_code = 400, json = Inr (PDict [(''error'', PStr ''bad request key'')]),
                  reason = ''Bad Request'', url = ''http://peframe/run''\<rparr>"]
    check_status_code_cases [where repr = "\<lambda>v. []" and name = "''PEframe''"
      and req = "\<lparr>status_code = 200, json = Inr (PDict []), reason = ''OK'',
                  url = ''http://peframe/run''\<rparr>"
      and d = "[]" and msg = "[]"
      and ?req2.0 = "\<lparr>status_code = 200, json = Inr (PDict []), reason = ''OK'',
                  url = ''http://peframe/run''\<rparr>"]
  by simp

end
